theory Spec2Isabelle
  imports Complex_Main
begin

section \<open>DodecaSkyMap: a dodecahedron-based sky map pixelization\<close>

text \<open>
  A shallow embedding of \<^verbatim>\<open>python/lsst/skymap/dodecaSkyMap.py\<close>.

  Python floats are modelled as \<open>real\<close>: the properties below rest on comparisons and on
  the control flow only, never on rounding. Exceptions are values of the type \<open>error\<close>;
  a function that can raise returns \<open>error + 'a\<close>, with \<open>Inl\<close> the exception.
\<close>

subsection \<open>Exceptions\<close>

text \<open>
  \<^item> \<open>PoleAmbiguity\<close>: \<^verbatim>\<open>RuntimeError("At pole and defRA==None")\<close> of \<^verbatim>\<open>_coordFromVec\<close>;
  \<^item> \<open>VersionError\<close>: the \<^verbatim>\<open>RuntimeError("Version = ... >= (2,0); cannot unpickle")\<close>
    that \<^verbatim>\<open>__setstate__\<close> means to raise;
  \<^item> \<open>NameError n\<close>: Python's NameError, raised when the undefined global name \<open>n\<close> is
    evaluated;
  \<^item> \<open>ConfigurationError\<close>: a configuration refused at construction;
  \<^item> \<open>IndexError\<close>: an index outside a sequence.
\<close>

datatype error = PoleAmbiguity | VersionError | NameError string | ConfigurationError | IndexError

subsection \<open>Angles, vectors and coordinates (the afw library)\<close>

text \<open>
  \<^verbatim>\<open>afwGeom.Angle(value, units)\<close> holds the angle in radians: the value times the unit's
  size in radians. \<^verbatim>\<open>afwGeom.Angle(value)\<close> takes radians.
\<close>

datatype AngleUnit = radians | degrees | arcseconds

fun unitInRadians :: "AngleUnit \<Rightarrow> real" where
  "unitInRadians radians = 1"
| "unitInRadians degrees = pi / 180"
| "unitInRadians arcseconds = pi / 180 / 3600"

datatype Angle = AngleRad (asRadians: real)

definition Angle :: "real \<Rightarrow> AngleUnit \<Rightarrow> Angle" where
  "Angle v u = AngleRad (v * unitInRadians u)"

text \<open>A cartesian vector: a sequence of three floats, \<^verbatim>\<open>vec[0]\<close>, \<^verbatim>\<open>vec[1]\<close>, \<^verbatim>\<open>vec[2]\<close>.\<close>

type_synonym vec = "real \<times> real \<times> real"

definition dot :: "vec \<Rightarrow> vec \<Rightarrow> real" where
  "dot a b = (case a of (a0, a1, a2) \<Rightarrow> case b of (b0, b1, b2) \<Rightarrow> a0 * b0 + a1 * b1 + a2 * b2)"

text \<open>
  An ICRS coordinate, as \<^verbatim>\<open>afwCoord.makeCoord(afwCoord.ICRS, longitude, latitude)\<close>
  builds it.
\<close>

datatype Coord = makeCoord (getLongitude: Angle) (getLatitude: Angle)

text \<open>
  What the source uses and this repository does not define is a parameter of the model:
  \<^item> \<open>makeCoordPoint3D\<close>: \<^verbatim>\<open>afwCoord.makeCoord(afwCoord.ICRS, afwGeom.Point3D(*vec))\<close>, the
    coordinate of a cartesian vector (spherical trigonometry of the afw library);
  \<^item> \<open>getVector\<close>: \<^verbatim>\<open>coord.toIcrs().getVector()\<close>, the cartesian vector of a coordinate;
  \<^item> \<open>knownProjection\<close>: the FITS WCS projection codes the projection factory accepts;
  \<^item> \<open>faceCenters\<close>, \<open>faceVertices\<close>: the tables of \<^verbatim>\<open>detail.Dodecahedron\<close>, for each
    value of \<^verbatim>\<open>withFacesOnPoles\<close> and each face id: the face's center vector and the
    ordered vertex vectors of its boundary. The spec gives no coordinates for them.
\<close>

record Env =
  makeCoordPoint3D :: "vec \<Rightarrow> Coord"
  getVector :: "Coord \<Rightarrow> vec"
  knownProjection :: "string \<Rightarrow> bool"
  faceCenters :: "bool \<Rightarrow> nat \<Rightarrow> vec"
  faceVertices :: "bool \<Rightarrow> nat \<Rightarrow> vec list"

subsection \<open>Module constants\<close>

text \<open>\<^verbatim>\<open>numpy.finfo(float).tiny\<close>: the smallest positive normal double, \<open>2\<close> to the \<open>-1022\<close>.\<close>

definition TinyFloat :: real where
  "TinyFloat = 1 / 2 ^ 1022"

definition DefaultTractOverlap :: Angle where
  "DefaultTractOverlap = Angle (7 / 2) degrees"

definition DefaultPatchBorder :: int where
  "DefaultPatchBorder = 250"

definition DefaultPlateScale :: Angle where
  "DefaultPlateScale = Angle (10 / 50) arcseconds"

definition DefaultPatchInnerDimensions :: "int \<times> int" where
  "DefaultPatchInnerDimensions = (4000, 4000)"

subsection \<open>\<^verbatim>\<open>_coordFromVec\<close>\<close>

text \<open>
  Convert an ICRS cartesian vector to an ICRS coordinate. \<open>defRA\<close> is the longitude to
  use if the vector is too near a pole; \<open>None\<close> is Python's \<^verbatim>\<open>defRA=None\<close>.
\<close>

definition coordFromVec :: "Env \<Rightarrow> vec \<Rightarrow> Angle option \<Rightarrow> error + Coord" where
  "coordFromVec env v defRA =
     (case v of (v0, v1, v2) \<Rightarrow>
        if \<bar>v0\<bar> < TinyFloat \<and> \<bar>v1\<bar> < TinyFloat then
          (case defRA of
             None \<Rightarrow> Inl PoleAmbiguity
           | Some ra \<Rightarrow>
               Inr (makeCoord ra (Angle (if v2 > 0 then 90 else - 90) degrees)))
        else Inr (makeCoordPoint3D env v))"

subsection \<open>The dodecahedron\<close>

text \<open>
  Modelled from the spec: \<^verbatim>\<open>detail.Dodecahedron\<close> is not among the sources. The spec
  (4.2) gives it twelve faces, numbered \<open>0\<close> to \<open>11\<close>, fixed at construction by the
  \<^verbatim>\<open>withFacesOnPoles\<close> flag; \<^verbatim>\<open>getFaceCtr(id)\<close> and \<^verbatim>\<open>getVertices(id)\<close> read the
  tables, and \<^verbatim>\<open>getFaceInd(vec)\<close> returns the face whose center is nearest to the vector
  by dot product, the lowest id on a tie.
\<close>

record Dodecahedron =
  withFacesOnPoles :: bool
  faceVecList :: "nat \<Rightarrow> vec"
  vertexVecLists :: "nat \<Rightarrow> vec list"

definition Dodecahedron_init :: "Env \<Rightarrow> bool \<Rightarrow> Dodecahedron" where
  "Dodecahedron_init env flag =
     \<lparr> withFacesOnPoles = flag,
       faceVecList = faceCenters env flag,
       vertexVecLists = faceVertices env flag \<rparr>"

definition getFaceCtr :: "Dodecahedron \<Rightarrow> nat \<Rightarrow> error + vec" where
  "getFaceCtr d i = (if i < 12 then Inr (faceVecList d i) else Inl IndexError)"

definition getVertices :: "Dodecahedron \<Rightarrow> nat \<Rightarrow> error + vec list" where
  "getVertices d i = (if i < 12 then Inr (vertexVecLists d i) else Inl IndexError)"

definition getWithFacesOnPoles :: "Dodecahedron \<Rightarrow> bool" where
  "getWithFacesOnPoles d = withFacesOnPoles d"

text \<open>
  \<open>argmaxUpto f n\<close> is the first index among \<open>0, ..., n\<close> at which \<open>f\<close> is greatest: a
  later index replaces the best one so far only when its value is strictly greater.
\<close>

primrec argmaxUpto :: "(nat \<Rightarrow> real) \<Rightarrow> nat \<Rightarrow> nat" where
  "argmaxUpto f 0 = 0"
| "argmaxUpto f (Suc n) =
     (let best = argmaxUpto f n in if f best < f (Suc n) then Suc n else best)"

definition getFaceInd :: "Dodecahedron \<Rightarrow> vec \<Rightarrow> nat" where
  "getFaceInd d v = argmaxUpto (\<lambda>i. dot (faceVecList d i) v) 11"

subsection \<open>Tracts and the base sky map\<close>

text \<open>
  Modelled from the spec: \<^verbatim>\<open>detail.WcsFactory\<close>, \<^verbatim>\<open>TractInfo\<close> and \<^verbatim>\<open>BaseSkyMap\<close> are
  not among the sources. A \<^verbatim>\<open>TractInfo\<close> is the record of what its constructor is given
  (spec 3: id, center coordinate, ordered vertex coordinates, overlap angle, patch
  dimensions and border, and the projection factory); the projection itself, the pixel
  bounding box and the patch grid are outside this model.
\<close>

record WcsFactory =
  wcs_pixelScale :: Angle
  wcs_projection :: string

record TractInfo =
  tract_id :: nat
  tract_patchInnerDimensions :: "int \<times> int"
  tract_patchBorder :: int
  tract_ctrCoord :: Coord
  tract_vertexCoordList :: "Coord list"
  tract_tractOverlap :: Angle
  tract_wcsFactory :: WcsFactory

record BaseSkyMap =
  patchInnerDimensions :: "int \<times> int"
  patchBorder :: int
  tractOverlap :: Angle
  pixelScale :: Angle
  projection :: string
  tractInfoList :: "TractInfo list"
  wcsFactory :: WcsFactory

text \<open>
  Modelled from the spec: \<^verbatim>\<open>BaseSkyMap.__init__\<close>. A configuration with non-positive patch
  dimensions, a negative border (spec 6: the border is a non-negative integer) or an invalid
  projection code fails with a ConfigurationError (spec 4.3, 7); otherwise the
  configuration is stored, with an empty tract list.
\<close>

definition BaseSkyMap_init ::
  "Env \<Rightarrow> int \<times> int \<Rightarrow> int \<Rightarrow> Angle \<Rightarrow> Angle \<Rightarrow> string \<Rightarrow> error + BaseSkyMap" where
  "BaseSkyMap_init env dims border overlap scale proj =
     (if fst dims \<le> 0 \<or> snd dims \<le> 0 \<or> border < 0 \<or> \<not> knownProjection env proj
      then Inl ConfigurationError
      else Inr \<lparr> patchInnerDimensions = dims,
                 patchBorder = border,
                 tractOverlap = overlap,
                 pixelScale = scale,
                 projection = proj,
                 tractInfoList = [],
                 wcsFactory = \<lparr> wcs_pixelScale = scale, wcs_projection = proj \<rparr> \<rparr>)"

text \<open>
  Modelled from the spec: the accessors of \<^verbatim>\<open>BaseSkyMap\<close> return what the constructor
  stored; \<^verbatim>\<open>skymap[i]\<close> is the i-th tract in construction order and \<^verbatim>\<open>len(skymap)\<close>
  the number of tracts (spec 4.5). An index past the end raises IndexError, as a Python
  list does.
\<close>

definition getPatchInnerDimensions :: "'a BaseSkyMap_scheme \<Rightarrow> int \<times> int" where
  "getPatchInnerDimensions self = patchInnerDimensions self"

definition getPatchBorder :: "'a BaseSkyMap_scheme \<Rightarrow> int" where
  "getPatchBorder self = patchBorder self"

definition getTractOverlap :: "'a BaseSkyMap_scheme \<Rightarrow> Angle" where
  "getTractOverlap self = tractOverlap self"

definition getPixelScale :: "'a BaseSkyMap_scheme \<Rightarrow> Angle" where
  "getPixelScale self = pixelScale self"

definition getProjection :: "'a BaseSkyMap_scheme \<Rightarrow> string" where
  "getProjection self = projection self"

definition getitem :: "'a BaseSkyMap_scheme \<Rightarrow> nat \<Rightarrow> error + TractInfo" where
  "getitem self i =
     (if i < length (tractInfoList self) then Inr (tractInfoList self ! i) else Inl IndexError)"

definition len :: "'a BaseSkyMap_scheme \<Rightarrow> nat" where
  "len self = length (tractInfoList self)"

subsection \<open>\<^verbatim>\<open>DodecaSkyMap\<close>\<close>

text \<open>The version is a Python tuple of integers: a list, compared as Python compares tuples.\<close>

record DodecaSkyMap = BaseSkyMap +
  version :: "int list"
  dodecahedron :: Dodecahedron

text \<open>The keyword arguments of \<^verbatim>\<open>DodecaSkyMap.__init__\<close>, and their defaults.\<close>

record InitArgs =
  arg_patchInnerDimensions :: "int \<times> int"
  arg_patchBorder :: int
  arg_tractOverlap :: Angle
  arg_pixelScale :: Angle
  arg_projection :: string
  arg_withTractsOnPoles :: bool

definition defaultArgs :: InitArgs where
  "defaultArgs =
     \<lparr> arg_patchInnerDimensions = DefaultPatchInnerDimensions,
       arg_patchBorder = DefaultPatchBorder,
       arg_tractOverlap = DefaultTractOverlap,
       arg_pixelScale = DefaultPlateScale,
       arg_projection = ''STG'',
       arg_withTractsOnPoles = False \<rparr>"

text \<open>
  \<^verbatim>\<open>[_coordFromVec(vec, defRA=tractRA) for vec in vertexVecList]\<close>: the first conversion
  that raises ends the comprehension.
\<close>

fun coordsFromVecs :: "Env \<Rightarrow> vec list \<Rightarrow> Angle option \<Rightarrow> error + Coord list" where
  "coordsFromVecs env [] defRA = Inr []"
| "coordsFromVecs env (v # vs) defRA =
     (case coordFromVec env v defRA of
        Inl e \<Rightarrow> Inl e
      | Inr c \<Rightarrow>
          (case coordsFromVecs env vs defRA of
             Inl e \<Rightarrow> Inl e
           | Inr cs \<Rightarrow> Inr (c # cs)))"

text \<open>The body of the loop of \<^verbatim>\<open>__init__\<close> up to the \<^verbatim>\<open>append\<close>: the tract of one face id.\<close>

definition makeTract :: "Env \<Rightarrow> DodecaSkyMap \<Rightarrow> nat \<Rightarrow> error + TractInfo" where
  "makeTract env self i =
     (case getFaceCtr (dodecahedron self) i of
        Inl e \<Rightarrow> Inl e
      | Inr tractVec \<Rightarrow>
     (case coordFromVec env tractVec (Some (Angle 0 radians)) of
        Inl e \<Rightarrow> Inl e
      | Inr tractCoord \<Rightarrow>
     (let tractRA = getLongitude tractCoord in
     (case getVertices (dodecahedron self) i of
        Inl e \<Rightarrow> Inl e
      | Inr vertexVecList \<Rightarrow>
     (case coordsFromVecs env vertexVecList (Some tractRA) of
        Inl e \<Rightarrow> Inl e
      | Inr vertexCoordList \<Rightarrow>
          Inr \<lparr> tract_id = i,
                tract_patchInnerDimensions = patchInnerDimensions self,
                tract_patchBorder = patchBorder self,
                tract_ctrCoord = tractCoord,
                tract_vertexCoordList = vertexCoordList,
                tract_tractOverlap = getTractOverlap self,
                tract_wcsFactory = wcsFactory self \<rparr>)))))"

text \<open>\<^verbatim>\<open>for id in range(12): ... self._tractInfoList.append(TractInfo(...))\<close>\<close>

fun buildTracts :: "Env \<Rightarrow> DodecaSkyMap \<Rightarrow> nat list \<Rightarrow> error + DodecaSkyMap" where
  "buildTracts env self [] = Inr self"
| "buildTracts env self (i # ids) =
     (case makeTract env self i of
        Inl e \<Rightarrow> Inl e
      | Inr t \<Rightarrow> buildTracts env (self\<lparr>tractInfoList := tractInfoList self @ [t]\<rparr>) ids)"

definition DodecaSkyMap_init :: "Env \<Rightarrow> InitArgs \<Rightarrow> error + DodecaSkyMap" where
  "DodecaSkyMap_init env args =
     (let v = [1, 0];
          d = Dodecahedron_init env (arg_withTractsOnPoles args)
      in case BaseSkyMap_init env (arg_patchInnerDimensions args) (arg_patchBorder args)
                (arg_tractOverlap args) (arg_pixelScale args) (arg_projection args) of
           Inl e \<Rightarrow> Inl e
         | Inr base \<Rightarrow>
             buildTracts env (BaseSkyMap.extend base (DodecaSkyMap.fields v d)) [0..<12])"

definition getVersion :: "DodecaSkyMap \<Rightarrow> int list" where
  "getVersion self = version self"

definition getWithTractsOnPoles :: "DodecaSkyMap \<Rightarrow> bool" where
  "getWithTractsOnPoles self = getWithFacesOnPoles (dodecahedron self)"

subsection \<open>Pickling\<close>

text \<open>
  The dictionary of \<^verbatim>\<open>__getstate__\<close>, with its seven keys; the two angles are floats, in
  radians.
\<close>

record PickleState =
  st_version :: "int list"
  st_patchInnerDimensions :: "int \<times> int"
  st_patchBorder :: int
  st_tractOverlap :: real
  st_pixelScale :: real
  st_projection :: string
  st_withTractsOnPoles :: bool

definition getstate :: "DodecaSkyMap \<Rightarrow> PickleState" where
  "getstate self =
     \<lparr> st_version = version self,
       st_patchInnerDimensions = getPatchInnerDimensions self,
       st_patchBorder = getPatchBorder self,
       st_tractOverlap = asRadians (getTractOverlap self),
       st_pixelScale = asRadians (getPixelScale self),
       st_projection = getProjection self,
       st_withTractsOnPoles = getWithTractsOnPoles self \<rparr>"

text \<open>Python's order on tuples of integers: lexicographic, a proper prefix is smaller.\<close>

fun tuple_lt :: "int list \<Rightarrow> int list \<Rightarrow> bool" where
  "tuple_lt [] [] = False"
| "tuple_lt [] (y # ys) = True"
| "tuple_lt (x # xs) [] = False"
| "tuple_lt (x # xs) (y # ys) = (if x = y then tuple_lt xs ys else x < y)"

definition tuple_ge :: "int list \<Rightarrow> int list \<Rightarrow> bool" where
  "tuple_ge a b = (\<not> tuple_lt a b)"

text \<open>
  \<^verbatim>\<open>__setstate__\<close>. The name \<^verbatim>\<open>runtimeError\<close> of its \<^verbatim>\<open>raise\<close> statement is bound nowhere
  (the module imports math, numpy, afwCoord, afwGeom, detail, BaseSkyMap and TractInfo, and
  the builtin is \<^verbatim>\<open>RuntimeError\<close>), so evaluating it raises NameError.
\<close>

definition setstate :: "Env \<Rightarrow> PickleState \<Rightarrow> error + DodecaSkyMap" where
  "setstate env argDict =
     (let version = st_version argDict in
      if tuple_ge version [2, 0] then Inl (NameError ''runtimeError'')
      else DodecaSkyMap_init env
             \<lparr> arg_patchInnerDimensions = st_patchInnerDimensions argDict,
               arg_patchBorder = st_patchBorder argDict,
               arg_tractOverlap = Angle (st_tractOverlap argDict) radians,
               arg_pixelScale = Angle (st_pixelScale argDict) radians,
               arg_projection = st_projection argDict,
               arg_withTractsOnPoles = st_withTractsOnPoles argDict \<rparr>)"

subsection \<open>\<^verbatim>\<open>findTract\<close>\<close>

definition findTract :: "Env \<Rightarrow> DodecaSkyMap \<Rightarrow> Coord \<Rightarrow> error + TractInfo" where
  "findTract env self coord = getitem self (getFaceInd (dodecahedron self) (getVector env coord))"



section \<open>An example environment\<close>

text \<open>
  A concrete environment, on which the theorems below are run: a dodecahedron with its
  face centers and vertices rounded to three decimals (\<open>milli\<close> reads a vector given in
  thousandths), in both orientations. With \<open>flag = True\<close> faces 0 and 11 are centered on
  the poles; with \<open>flag = False\<close> the poles are vertices, shared by faces 0, 1, 2 (north)
  and 9, 10, 11 (south). The numbering of the faces is this example's own.
\<close>

definition milli :: "int \<times> int \<times> int \<Rightarrow> vec" where
  "milli p = (case p of (a, b, c) \<Rightarrow> (real_of_int a / 1000, real_of_int b / 1000, real_of_int c / 1000))"

definition exampleFaceCenters :: "bool \<Rightarrow> nat \<Rightarrow> vec" where
  "exampleFaceCenters flag i =
     (if 12 \<le> i then (0, 0, 0)
      else if flag then milli (
       [(0, 0, 1000), (724, 526, 447), (- 276, 851, 447), (- 894, 0, 447),
        (- 276, - 851, 447), (724, - 526, 447), (894, 0, - 447), (276, 851, - 447),
        (- 724, 526, - 447), (- 724, - 526, - 447), (276, - 851, - 447), (0, 0, - 1000)] ! i)
      else milli (
       [(480, 372, 795), (- 562, 230, 795), (82, - 602, 795), (- 133, 973, 188),
        (- 777, - 602, 188), (909, - 372, 188), (777, 602, - 188), (- 909, 372, - 188),
        (133, - 973, - 188), (- 82, 602, - 795), (- 480, - 372, - 795), (562, - 230, - 795)] ! i))"

definition exampleFaceVertices :: "bool \<Rightarrow> nat \<Rightarrow> vec list" where
  "exampleFaceVertices flag i =
     (if 12 \<le> i then []
      else if flag then map milli (
       [[(607, 0, 795), (188, 577, 795), (- 491, 357, 795), (- 491, - 357, 795), (188, - 577, 795)],
        [(795, 577, - 188), (304, 934, 188), (188, 577, 795), (607, 0, 795), (982, 0, 188)],
        [(304, 934, 188), (- 304, 934, - 188), (- 795, 577, 188), (- 491, 357, 795), (188, 577, 795)],
        [(- 491, 357, 795), (- 795, 577, 188), (- 982, 0, - 188), (- 795, - 577, 188), (- 491, - 357, 795)],
        [(188, - 577, 795), (- 491, - 357, 795), (- 795, - 577, 188), (- 304, - 934, - 188), (304, - 934, 188)],
        [(982, 0, 188), (607, 0, 795), (188, - 577, 795), (304, - 934, 188), (795, - 577, - 188)],
        [(982, 0, 188), (795, - 577, - 188), (491, - 357, - 795), (491, 357, - 795), (795, 577, - 188)],
        [(491, 357, - 795), (- 188, 577, - 795), (- 304, 934, - 188), (304, 934, 188), (795, 577, - 188)],
        [(- 188, 577, - 795), (- 607, 0, - 795), (- 982, 0, - 188), (- 795, 577, 188), (- 304, 934, - 188)],
        [(- 304, - 934, - 188), (- 795, - 577, 188), (- 982, 0, - 188), (- 607, 0, - 795), (- 188, - 577, - 795)],
        [(795, - 577, - 188), (304, - 934, 188), (- 304, - 934, - 188), (- 188, - 577, - 795), (491, - 357, - 795)],
        [(491, - 357, - 795), (- 188, - 577, - 795), (- 607, 0, - 795), (- 188, 577, - 795), (491, 357, - 795)]] ! i)
      else map milli (
       [[(908, 252, 333), (471, 816, 333), (- 90, 661, 745), (0, 0, 1000), (617, - 252, 745)],
        [(- 90, 661, 745), (- 673, 661, 333), (- 943, 0, 333), (- 527, - 408, 745), (0, 0, 1000)],
        [(617, - 252, 745), (0, 0, 1000), (- 527, - 408, 745), (- 236, - 913, 333), (471, - 816, 333)],
        [(236, 913, - 333), (- 471, 816, - 333), (- 673, 661, 333), (- 90, 661, 745), (471, 816, 333)],
        [(- 236, - 913, 333), (- 527, - 408, 745), (- 943, 0, 333), (- 908, - 252, - 333), (- 471, - 816, - 333)],
        [(908, 252, 333), (617, - 252, 745), (471, - 816, 333), (673, - 661, - 333), (943, 0, - 333)],
        [(943, 0, - 333), (527, 408, - 745), (236, 913, - 333), (471, 816, 333), (908, 252, 333)],
        [(- 471, 816, - 333), (- 617, 252, - 745), (- 908, - 252, - 333), (- 943, 0, 333), (- 673, 661, 333)],
        [(471, - 816, 333), (- 236, - 913, 333), (- 471, - 816, - 333), (90, - 661, - 745), (673, - 661, - 333)],
        [(527, 408, - 745), (0, 0, - 1000), (- 617, 252, - 745), (- 471, 816, - 333), (236, 913, - 333)],
        [(90, - 661, - 745), (- 471, - 816, - 333), (- 908, - 252, - 333), (- 617, 252, - 745), (0, 0, - 1000)],
        [(673, - 661, - 333), (90, - 661, - 745), (0, 0, - 1000), (527, 408, - 745), (943, 0, - 333)]] ! i))"

definition exampleLongitude :: "real \<Rightarrow> real \<Rightarrow> real" where
  "exampleLongitude x y =
     (if 0 < x then (if 0 \<le> y then arctan (y / x) else arctan (y / x) + 2 * pi)
      else if x < 0 then arctan (y / x) + pi
      else if 0 < y then pi / 2
      else if y < 0 then 3 * pi / 2
      else 0)"

definition exampleMakeCoordPoint3D :: "vec \<Rightarrow> Coord" where
  "exampleMakeCoordPoint3D v =
     (case v of (x, y, z) \<Rightarrow>
        makeCoord (AngleRad (exampleLongitude x y))
          (AngleRad (arcsin (z / sqrt (x * x + y * y + z * z)))))"

definition exampleGetVector :: "Coord \<Rightarrow> vec" where
  "exampleGetVector c =
     (let lon = asRadians (getLongitude c); lat = asRadians (getLatitude c)
      in (cos lat * cos lon, cos lat * sin lon, sin lat))"

definition exampleEnv :: Env where
  "exampleEnv =
     \<lparr> makeCoordPoint3D = exampleMakeCoordPoint3D,
       getVector = exampleGetVector,
       knownProjection = (\<lambda>p. p = ''STG'' \<or> p = ''MOL'' \<or> p = ''TAN''),
       faceCenters = exampleFaceCenters,
       faceVertices = exampleFaceVertices \<rparr>"

text \<open>A pickled state written with an older version tag, \<open>(0, 9)\<close>, and the default configuration.\<close>

definition olderState :: PickleState where
  "olderState =
     \<lparr> st_version = [0, 9],
       st_patchInnerDimensions = (4000, 4000),
       st_patchBorder = 250,
       st_tractOverlap = 7 / 2 * (pi / 180),
       st_pixelScale = 10 / 50 * (pi / 180 / 3600),
       st_projection = ''STG'',
       st_withTractsOnPoles = False \<rparr>"

section \<open>What the constructor computes\<close>

text \<open>
  Closed forms of the constructor's results, used in the proofs: the coordinate of a vector
  when a default longitude is given, the tract of a face, the configurations that
  \<^verbatim>\<open>BaseSkyMap.__init__\<close> accepts, the sky map before the loop and after it.
\<close>

definition coordWithDefault :: "Env \<Rightarrow> vec \<Rightarrow> Angle \<Rightarrow> Coord" where
  "coordWithDefault env v ra =
     (case v of (v0, v1, v2) \<Rightarrow>
        if \<bar>v0\<bar> < TinyFloat \<and> \<bar>v1\<bar> < TinyFloat
        then makeCoord ra (Angle (if v2 > 0 then 90 else - 90) degrees)
        else makeCoordPoint3D env v)"

definition tractFor :: "Env \<Rightarrow> DodecaSkyMap \<Rightarrow> nat \<Rightarrow> TractInfo" where
  "tractFor env self i =
     (let tractCoord = coordWithDefault env (faceVecList (dodecahedron self) i) (Angle 0 radians)
      in \<lparr> tract_id = i,
           tract_patchInnerDimensions = patchInnerDimensions self,
           tract_patchBorder = patchBorder self,
           tract_ctrCoord = tractCoord,
           tract_vertexCoordList =
             map (\<lambda>v. coordWithDefault env v (getLongitude tractCoord))
               (vertexVecLists (dodecahedron self) i),
           tract_tractOverlap = tractOverlap self,
           tract_wcsFactory = wcsFactory self \<rparr>)"

definition validConfig :: "Env \<Rightarrow> InitArgs \<Rightarrow> bool" where
  "validConfig env args =
     (0 < fst (arg_patchInnerDimensions args) \<and> 0 < snd (arg_patchInnerDimensions args) \<and>
      0 \<le> arg_patchBorder args \<and> knownProjection env (arg_projection args))"

definition emptySkyMap :: "Env \<Rightarrow> InitArgs \<Rightarrow> DodecaSkyMap" where
  "emptySkyMap env args =
     \<lparr> patchInnerDimensions = arg_patchInnerDimensions args,
       patchBorder = arg_patchBorder args,
       tractOverlap = arg_tractOverlap args,
       pixelScale = arg_pixelScale args,
       projection = arg_projection args,
       tractInfoList = [],
       wcsFactory = \<lparr> wcs_pixelScale = arg_pixelScale args,
                      wcs_projection = arg_projection args \<rparr>,
       version = [1, 0],
       dodecahedron = Dodecahedron_init env (arg_withTractsOnPoles args) \<rparr>"

definition builtSkyMap :: "Env \<Rightarrow> InitArgs \<Rightarrow> DodecaSkyMap" where
  "builtSkyMap env args =
     (emptySkyMap env args)
       \<lparr> tractInfoList := map (tractFor env (emptySkyMap env args)) [0..<12] \<rparr>"

text \<open>
  With a default longitude \<^verbatim>\<open>_coordFromVec\<close> never raises, so the loop over the twelve
  faces runs to its end, and the constructor returns the closed form or refuses the
  configuration.
\<close>

lemma coordFromVec_Some: "coordFromVec env v (Some ra) = Inr (coordWithDefault env v ra)"
  by (cases v) (simp add: coordFromVec_def coordWithDefault_def)

lemma coordsFromVecs_Some:
  "coordsFromVecs env vs (Some ra) = Inr (map (\<lambda>v. coordWithDefault env v ra) vs)"
  by (induction vs) (simp_all add: coordFromVec_Some)

lemma makeTract_face: "i < 12 \<Longrightarrow> makeTract env self i = Inr (tractFor env self i)"
  by (simp add: makeTract_def tractFor_def getFaceCtr_def getVertices_def coordFromVec_Some
      coordsFromVecs_Some getTractOverlap_def Let_def)

lemma tractFor_tractInfoList_update:
  "tractFor env (self\<lparr>tractInfoList := l\<rparr>) i = tractFor env self i"
  by (simp add: tractFor_def)

lemma buildTracts_faces:
  "\<forall>i \<in> set ids. i < 12 \<Longrightarrow>
   buildTracts env self ids =
     Inr (self\<lparr>tractInfoList := tractInfoList self @ map (tractFor env self) ids\<rparr>)"
proof (induction ids arbitrary: self)
  case Nil
  show ?case by simp
next
  case (Cons i ids)
  from Cons.prems have i: "i < 12" and rest: "\<forall>j \<in> set ids. j < 12" by simp_all
  show ?case
    by (simp add: makeTract_face [OF i] Cons.IH [OF rest] tractFor_tractInfoList_update)
qed

lemma init_valid:
  "validConfig env args \<Longrightarrow> DodecaSkyMap_init env args = Inr (builtSkyMap env args)"
  by (simp add: DodecaSkyMap_init_def BaseSkyMap_init_def validConfig_def Let_def
      buildTracts_faces builtSkyMap_def emptySkyMap_def BaseSkyMap.defs DodecaSkyMap.defs
      not_le not_less)

lemma init_invalid:
  "\<not> validConfig env args \<Longrightarrow> DodecaSkyMap_init env args = Inl ConfigurationError"
  by (auto simp add: DodecaSkyMap_init_def BaseSkyMap_init_def validConfig_def Let_def)

lemma init_Inr_iff:
  "DodecaSkyMap_init env args = Inr sm \<longleftrightarrow> validConfig env args \<and> sm = builtSkyMap env args"
  by (cases "validConfig env args") (auto simp add: init_valid init_invalid)

lemma length_built: "length (tractInfoList (builtSkyMap env args)) = 12"
  by (simp add: builtSkyMap_def)

lemma nth_built:
  "i < 12 \<Longrightarrow> tractInfoList (builtSkyMap env args) ! i = tractFor env (emptySkyMap env args) i"
  by (simp add: builtSkyMap_def)

lemma tractFor_built: "tractFor env (builtSkyMap env args) i = tractFor env (emptySkyMap env args) i"
  by (simp add: builtSkyMap_def tractFor_tractInfoList_update)

lemma tract_id_tractFor: "tract_id (tractFor env self i) = i"
  by (simp add: tractFor_def Let_def)

lemma dodecahedron_built:
  "dodecahedron (builtSkyMap env args) = Dodecahedron_init env (arg_withTractsOnPoles args)"
  by (simp add: builtSkyMap_def emptySkyMap_def)

lemma version_built: "version (builtSkyMap env args) = [1, 0]"
  by (simp add: builtSkyMap_def emptySkyMap_def)

lemma getstate_built:
  "getstate (builtSkyMap env args) =
     \<lparr> st_version = [1, 0],
       st_patchInnerDimensions = arg_patchInnerDimensions args,
       st_patchBorder = arg_patchBorder args,
       st_tractOverlap = asRadians (arg_tractOverlap args),
       st_pixelScale = asRadians (arg_pixelScale args),
       st_projection = arg_projection args,
       st_withTractsOnPoles = arg_withTractsOnPoles args \<rparr>"
  by (simp add: getstate_def builtSkyMap_def emptySkyMap_def getPatchInnerDimensions_def
      getPatchBorder_def getTractOverlap_def getPixelScale_def getProjection_def
      getWithTractsOnPoles_def getWithFacesOnPoles_def Dodecahedron_init_def)

lemma Angle_radians: "Angle (asRadians a) radians = a"
  by (cases a) (simp add: Angle_def)

lemma args_of_built:
  "\<lparr> arg_patchInnerDimensions = st_patchInnerDimensions (getstate (builtSkyMap env args)),
     arg_patchBorder = st_patchBorder (getstate (builtSkyMap env args)),
     arg_tractOverlap = Angle (st_tractOverlap (getstate (builtSkyMap env args))) radians,
     arg_pixelScale = Angle (st_pixelScale (getstate (builtSkyMap env args))) radians,
     arg_projection = st_projection (getstate (builtSkyMap env args)),
     arg_withTractsOnPoles = st_withTractsOnPoles (getstate (builtSkyMap env args)) \<rparr> = args"
  by (simp add: getstate_def builtSkyMap_def emptySkyMap_def getPatchInnerDimensions_def
      getPatchBorder_def getTractOverlap_def getPixelScale_def getProjection_def
      getWithTractsOnPoles_def getWithFacesOnPoles_def Dodecahedron_init_def Angle_radians)

text \<open>The face index is in range, a nearest face center, and the lowest such id.\<close>

lemma argmaxUpto_le: "argmaxUpto f n \<le> n"
  by (induction n) (auto simp add: le_Suc_eq Let_def)

lemma argmaxUpto_greatest: "j \<le> n \<Longrightarrow> f j \<le> f (argmaxUpto f n)"
proof (induction n)
  case 0
  then show ?case by simp
next
  case (Suc n)
  show ?case
  proof (cases "j = Suc n")
    case True
    then show ?thesis by (simp add: Let_def)
  next
    case False
    with Suc.prems have "j \<le> n" by simp
    from Suc.IH [OF this] show ?thesis by (simp add: Let_def)
  qed
qed

lemma argmaxUpto_first: "j < argmaxUpto f n \<Longrightarrow> f j < f (argmaxUpto f n)"
proof (induction n)
  case 0
  then show ?case by simp
next
  case (Suc n)
  show ?case
  proof (cases "f (argmaxUpto f n) < f (Suc n)")
    case True
    have "j \<le> n" using Suc.prems True by simp
    from argmaxUpto_greatest [OF this, of f] True show ?thesis by (simp add: Let_def)
  next
    case False
    with Suc show ?thesis by (simp add: Let_def)
  qed
qed

lemma getFaceInd_lt: "getFaceInd d v < 12"
  using argmaxUpto_le [of "\<lambda>i. dot (faceVecList d i) v" 11] by (simp add: getFaceInd_def)

lemma getFaceInd_nearest:
  "j < 12 \<Longrightarrow> dot (faceVecList d j) v \<le> dot (faceVecList d (getFaceInd d v)) v"
  using argmaxUpto_greatest [of j 11 "\<lambda>i. dot (faceVecList d i) v"] by (simp add: getFaceInd_def)

lemma getFaceInd_lowest:
  "j < getFaceInd d v \<Longrightarrow> dot (faceVecList d j) v < dot (faceVecList d (getFaceInd d v)) v"
  using argmaxUpto_first [of j "\<lambda>i. dot (faceVecList d i) v" 11] by (simp add: getFaceInd_def)

text \<open>The two branches of \<^verbatim>\<open>__setstate__\<close>.\<close>

lemma not_ge_2_0: "\<not> tuple_ge [1, 0] [2, 0]"
  by (simp add: tuple_ge_def)

lemma setstate_newer:
  "tuple_ge (st_version argDict) [2, 0] \<Longrightarrow> setstate env argDict = Inl (NameError ''runtimeError'')"
  by (simp add: setstate_def)

lemma setstate_older:
  "\<not> tuple_ge (st_version argDict) [2, 0] \<Longrightarrow>
   setstate env argDict =
     DodecaSkyMap_init env
       \<lparr> arg_patchInnerDimensions = st_patchInnerDimensions argDict,
         arg_patchBorder = st_patchBorder argDict,
         arg_tractOverlap = Angle (st_tractOverlap argDict) radians,
         arg_pixelScale = Angle (st_pixelScale argDict) radians,
         arg_projection = st_projection argDict,
         arg_withTractsOnPoles = st_withTractsOnPoles argDict \<rparr>"
  by (simp add: setstate_def)

text \<open>Facts about the example environment.\<close>

lemma example_valid: "validConfig exampleEnv defaultArgs"
  by (simp add: validConfig_def exampleEnv_def defaultArgs_def DefaultPatchInnerDimensions_def
      DefaultPatchBorder_def)

lemma example_valid_poles:
  "validConfig exampleEnv (defaultArgs\<lparr>arg_withTractsOnPoles := True\<rparr>)"
  using example_valid by (simp add: validConfig_def)

lemma example_init:
  "DodecaSkyMap_init exampleEnv defaultArgs = Inr (builtSkyMap exampleEnv defaultArgs)"
  by (rule init_valid [OF example_valid])

lemma example_init_poles:
  "DodecaSkyMap_init exampleEnv (defaultArgs\<lparr>arg_withTractsOnPoles := True\<rparr>) =
     Inr (builtSkyMap exampleEnv (defaultArgs\<lparr>arg_withTractsOnPoles := True\<rparr>))"
  by (rule init_valid [OF example_valid_poles])

lemma north_pole_vector:
  "getVector exampleEnv (makeCoord (Angle 0 radians) (Angle 90 degrees)) = (0, 0, 1)"
  by (simp add: exampleEnv_def exampleGetVector_def Angle_def)

lemma example_dodecahedron:
  "dodecahedron (builtSkyMap exampleEnv defaultArgs) = Dodecahedron_init exampleEnv False"
  by (simp add: dodecahedron_built defaultArgs_def)

lemma north_pole_face: "getFaceInd (Dodecahedron_init exampleEnv False) (0, 0, 1) = 0"
  by (simp add: getFaceInd_def Dodecahedron_init_def exampleEnv_def exampleFaceCenters_def
      milli_def dot_def eval_nat_numeral)

lemma example_state:
  "getstate (builtSkyMap exampleEnv defaultArgs) =
     \<lparr> st_version = [1, 0],
       st_patchInnerDimensions = (4000, 4000),
       st_patchBorder = 250,
       st_tractOverlap = 7 / 2 * (pi / 180),
       st_pixelScale = 10 / 50 * (pi / 180 / 3600),
       st_projection = ''STG'',
       st_withTractsOnPoles = False \<rparr>"
  unfolding getstate_built
  by (simp add: defaultArgs_def DefaultPatchInnerDimensions_def DefaultPatchBorder_def
      DefaultTractOverlap_def DefaultPlateScale_def Angle_def)

lemma olderState_args:
  "\<lparr> arg_patchInnerDimensions = st_patchInnerDimensions olderState,
     arg_patchBorder = st_patchBorder olderState,
     arg_tractOverlap = Angle (st_tractOverlap olderState) radians,
     arg_pixelScale = Angle (st_pixelScale olderState) radians,
     arg_projection = st_projection olderState,
     arg_withTractsOnPoles = st_withTractsOnPoles olderState \<rparr> = defaultArgs"
  by (simp add: olderState_def defaultArgs_def DefaultPatchInnerDimensions_def
      DefaultPatchBorder_def DefaultTractOverlap_def DefaultPlateScale_def Angle_def)

lemma setstate_olderState:
  "setstate exampleEnv olderState = Inr (builtSkyMap exampleEnv defaultArgs)"
proof -
  have "\<not> tuple_ge (st_version olderState) [2, 0]"
    by (simp add: olderState_def tuple_ge_def)
  from setstate_older [OF this, of exampleEnv] show ?thesis
    unfolding olderState_args by (simp only: example_init)
qed

lemma example_center_poles: "faceCenters exampleEnv True 0 = (0, 0, 1)"
  by (simp add: exampleEnv_def exampleFaceCenters_def milli_def)

lemma example_center: "faceCenters exampleEnv False 0 = milli (480, 372, 795)"
  by (simp add: exampleEnv_def exampleFaceCenters_def)

lemma example_vertices:
  "faceVertices exampleEnv False 0 =
     map milli [(908, 252, 333), (471, 816, 333), (- 90, 661, 745), (0, 0, 1000), (617, - 252, 745)]"
  by (simp add: exampleEnv_def exampleFaceVertices_def)

lemma milli_pole: "milli (0, 0, 1000) = (0, 0, 1)"
  by (simp add: milli_def)

section \<open>The claims\<close>

text \<open>
  C1. On every sky map that the constructor returns, and for every coordinate,
  \<^verbatim>\<open>findTract\<close> succeeds and returns one tract: the tract stored at the index that the
  dodecahedron's face test \<^verbatim>\<open>getFaceInd\<close> gives for the coordinate's vector. That index
  is below 12, and it is the id of the tract returned.
\<close>

theorem findTract_total:
  assumes "DodecaSkyMap_init env args = Inr sm"
  shows "getFaceInd (dodecahedron sm) (getVector env coord) < 12 \<and>
         findTract env sm coord =
           Inr (tractInfoList sm ! getFaceInd (dodecahedron sm) (getVector env coord)) \<and>
         tract_id (tractInfoList sm ! getFaceInd (dodecahedron sm) (getVector env coord)) =
           getFaceInd (dodecahedron sm) (getVector env coord)"
proof -
  from assms have sm: "sm = builtSkyMap env args" by (simp add: init_Inr_iff)
  have k: "getFaceInd (dodecahedron sm) (getVector env coord) < 12" by (rule getFaceInd_lt)
  show ?thesis
    using k by (simp add: findTract_def getitem_def sm length_built nth_built tract_id_tractFor)
qed

text \<open>
  In the example, with a vertex on the north pole, the pole is equally near to the centers
  of faces 0, 1 and 2; the lowest id wins and \<^verbatim>\<open>findTract\<close> returns tract 0.
\<close>

theorem findTract_total_witness:
  "DodecaSkyMap_init exampleEnv defaultArgs = Inr (builtSkyMap exampleEnv defaultArgs) \<and>
   findTract exampleEnv (builtSkyMap exampleEnv defaultArgs)
       (makeCoord (Angle 0 radians) (Angle 90 degrees)) =
     Inr (tractInfoList (builtSkyMap exampleEnv defaultArgs) ! 0) \<and>
   tract_id (tractInfoList (builtSkyMap exampleEnv defaultArgs) ! 0) = 0"
  using findTract_total [OF example_init, of "makeCoord (Angle 0 radians) (Angle 90 degrees)"]
  by (simp add: example_init example_dodecahedron north_pole_vector north_pole_face)

text \<open>
  C2. For a vector whose two equatorial components are both below \<open>TinyFloat\<close> in absolute
  value, \<^verbatim>\<open>_coordFromVec\<close> fails if and only if no default longitude is given, and then
  with the pole ambiguity error; with a default longitude it returns the coordinate with
  that longitude and latitude +90 degrees when the polar component is positive, -90 degrees
  otherwise. For a vector with an equatorial component at or above \<open>TinyFloat\<close> it returns
  the coordinate of the vector, whatever the default.
\<close>

theorem coordFromVec_pole_policy:
  "(\<bar>v0\<bar> < TinyFloat \<and> \<bar>v1\<bar> < TinyFloat \<longrightarrow>
      ((\<exists>e. coordFromVec env (v0, v1, v2) defRA = Inl e) \<longleftrightarrow> defRA = None) \<and>
      (defRA = None \<longrightarrow> coordFromVec env (v0, v1, v2) defRA = Inl PoleAmbiguity) \<and>
      (\<forall>ra. defRA = Some ra \<longrightarrow>
         coordFromVec env (v0, v1, v2) defRA =
           Inr (makeCoord ra (Angle (if 0 < v2 then 90 else - 90) degrees)))) \<and>
   (TinyFloat \<le> \<bar>v0\<bar> \<or> TinyFloat \<le> \<bar>v1\<bar> \<longrightarrow>
      coordFromVec env (v0, v1, v2) defRA = Inr (makeCoordPoint3D env (v0, v1, v2)))"
  by (cases defRA) (auto simp add: coordFromVec_def)

text \<open>At the poles \<open>(0, 0, 1)\<close> and \<open>(0, 0, -1)\<close>, and at \<open>(1, 0, 0)\<close> on the equator.\<close>

theorem coordFromVec_pole_policy_witness:
  "coordFromVec exampleEnv (0, 0, 1) None = Inl PoleAmbiguity \<and>
   coordFromVec exampleEnv (0, 0, 1) (Some (Angle 30 degrees)) =
     Inr (makeCoord (Angle 30 degrees) (Angle 90 degrees)) \<and>
   coordFromVec exampleEnv (0, 0, - 1) (Some (Angle 30 degrees)) =
     Inr (makeCoord (Angle 30 degrees) (Angle (- 90) degrees)) \<and>
   coordFromVec exampleEnv (1, 0, 0) None = Inr (makeCoordPoint3D exampleEnv (1, 0, 0)) \<and>
   coordFromVec exampleEnv (1, 0, 0) (Some (Angle 30 degrees)) =
     Inr (makeCoordPoint3D exampleEnv (1, 0, 0))"
  using coordFromVec_pole_policy [of 0 0 exampleEnv 1 None]
    coordFromVec_pole_policy [of 0 0 exampleEnv 1 "Some (Angle 30 degrees)"]
    coordFromVec_pole_policy [of 0 0 exampleEnv "- 1" "Some (Angle 30 degrees)"]
    coordFromVec_pole_policy [of 1 0 exampleEnv 0 None]
    coordFromVec_pole_policy [of 1 0 exampleEnv 0 "Some (Angle 30 degrees)"]
  by (simp add: TinyFloat_def)

text \<open>
  C3. Every sky map that the constructor returns has exactly 12 tracts; \<^verbatim>\<open>len(skymap)\<close>
  is 12; for every \<open>i < 12\<close>, \<^verbatim>\<open>skymap[i]\<close> is the i-th tract of the list, which is the
  tract the loop built for face \<open>i\<close>, and its id is \<open>i\<close>.
\<close>

theorem tracts_twelve:
  assumes "DodecaSkyMap_init env args = Inr sm"
  shows "length (tractInfoList sm) = 12 \<and> len sm = 12 \<and>
         (\<forall>i<12. getitem sm i = Inr (tractInfoList sm ! i) \<and>
                 makeTract env sm i = Inr (tractInfoList sm ! i) \<and>
                 tract_id (tractInfoList sm ! i) = i)"
proof -
  from assms have sm: "sm = builtSkyMap env args" by (simp add: init_Inr_iff)
  show ?thesis
    by (simp add: sm len_def getitem_def length_built nth_built makeTract_face tractFor_built
        tract_id_tractFor)
qed

text \<open>The default sky map of the example, and its tract 7.\<close>

theorem tracts_twelve_witness:
  "DodecaSkyMap_init exampleEnv defaultArgs = Inr (builtSkyMap exampleEnv defaultArgs) \<and>
   length (tractInfoList (builtSkyMap exampleEnv defaultArgs)) = 12 \<and>
   len (builtSkyMap exampleEnv defaultArgs) = 12 \<and>
   getitem (builtSkyMap exampleEnv defaultArgs) 7 =
     Inr (tractInfoList (builtSkyMap exampleEnv defaultArgs) ! 7) \<and>
   tract_id (tractInfoList (builtSkyMap exampleEnv defaultArgs) ! 7) = 7"
  using tracts_twelve [OF example_init] by (simp add: example_init)

text \<open>
  C4. Unpickling a state whose version is \<open>(2, 0)\<close> fails, but not with the version error
  that the \<^verbatim>\<open>raise\<close> statement is written for: the name \<^verbatim>\<open>runtimeError\<close> is undefined,
  and evaluating it raises NameError. The rest of the state does not matter.
\<close>

theorem setstate_version_2_0:
  "setstate env (argDict\<lparr>st_version := [2, 0]\<rparr>) = Inl (NameError ''runtimeError'') \<and>
   setstate env (argDict\<lparr>st_version := [2, 0]\<rparr>) \<noteq> Inl VersionError"
  by (simp add: setstate_def tuple_ge_def)

text \<open>
  C5. Round trip: for every sky map that the constructor returns, \<^verbatim>\<open>__setstate__\<close> on the
  state of \<^verbatim>\<open>__getstate__\<close> (the two angles as radians) succeeds and returns the same sky
  map: the same state, the same tracts, and the same value of any function of the sky
  map, such as a fingerprint.
\<close>

theorem pickle_roundtrip:
  assumes "DodecaSkyMap_init env args = Inr sm"
  shows "setstate env (getstate sm) = Inr sm \<and>
         (\<forall>sm'. setstate env (getstate sm) = Inr sm' \<longrightarrow>
            getstate sm' = getstate sm \<and> tractInfoList sm' = tractInfoList sm \<and>
            fingerprint sm' = fingerprint sm)"
proof -
  from assms have sm: "sm = builtSkyMap env args" and valid: "validConfig env args"
    by (simp_all add: init_Inr_iff)
  have v: "st_version (getstate sm) = [1, 0]"
    by (simp add: getstate_def sm version_built)
  have "setstate env (getstate sm) = Inr sm"
    unfolding setstate_def Let_def v using not_ge_2_0
    by (simp add: sm args_of_built init_valid [OF valid])
  then show ?thesis by simp
qed

text \<open>The default sky map of the example, with the state it pickles to.\<close>

theorem pickle_roundtrip_witness:
  "DodecaSkyMap_init exampleEnv defaultArgs = Inr (builtSkyMap exampleEnv defaultArgs) \<and>
   getstate (builtSkyMap exampleEnv defaultArgs) =
     \<lparr> st_version = [1, 0],
       st_patchInnerDimensions = (4000, 4000),
       st_patchBorder = 250,
       st_tractOverlap = 7 / 2 * (pi / 180),
       st_pixelScale = 10 / 50 * (pi / 180 / 3600),
       st_projection = ''STG'',
       st_withTractsOnPoles = False \<rparr> \<and>
   setstate exampleEnv (getstate (builtSkyMap exampleEnv defaultArgs)) =
     Inr (builtSkyMap exampleEnv defaultArgs)"
proof -
  have "setstate exampleEnv (getstate (builtSkyMap exampleEnv defaultArgs)) =
     Inr (builtSkyMap exampleEnv defaultArgs)"
    by (rule pickle_roundtrip [OF example_init, where fingerprint = getstate, THEN conjunct1])
  with example_init example_state show ?thesis by (intro conjI)
qed

text \<open>
  C8. A configuration with a non-positive patch inner dimension or a negative border
  is refused with a ConfigurationError: the constructor returns the error and no sky map,
  so no tract list.
\<close>

theorem invalid_config_fails:
  assumes "fst (arg_patchInnerDimensions args) \<le> 0 \<or> snd (arg_patchInnerDimensions args) \<le> 0 \<or>
           arg_patchBorder args < 0"
  shows "DodecaSkyMap_init env args = Inl ConfigurationError"
  using assms by (intro init_invalid) (auto simp add: validConfig_def)

text \<open>Width 0, height -1 and border -1, each in the otherwise default configuration.\<close>

theorem invalid_config_fails_witness:
  "DodecaSkyMap_init exampleEnv (defaultArgs\<lparr>arg_patchInnerDimensions := (0, 4000)\<rparr>) =
     Inl ConfigurationError \<and>
   DodecaSkyMap_init exampleEnv (defaultArgs\<lparr>arg_patchInnerDimensions := (4000, - 1)\<rparr>) =
     Inl ConfigurationError \<and>
   DodecaSkyMap_init exampleEnv (defaultArgs\<lparr>arg_patchBorder := - 1\<rparr>) =
     Inl ConfigurationError"
  using invalid_config_fails [of "defaultArgs\<lparr>arg_patchInnerDimensions := (0, 4000)\<rparr>" exampleEnv]
    invalid_config_fails [of "defaultArgs\<lparr>arg_patchInnerDimensions := (4000, - 1)\<rparr>" exampleEnv]
    invalid_config_fails [of "defaultArgs\<lparr>arg_patchBorder := - 1\<rparr>" exampleEnv]
  by simp

text \<open>
  C9. For every configuration, with either value of \<^verbatim>\<open>withTractsOnPoles\<close>, the constructor
  does not raise the pole ambiguity error. In the sky map it returns, the center coordinate
  of tract \<open>i\<close> is the conversion of the center of face \<open>i\<close> with default longitude 0, the
  vertex coordinates are the conversions of the face's vertices with the center's
  longitude as the default, and a tract whose face center is at a pole has longitude 0.
\<close>

theorem init_no_pole_ambiguity:
  "DodecaSkyMap_init env args \<noteq> Inl PoleAmbiguity \<and>
   (\<forall>sm i v0 v1 v2.
      DodecaSkyMap_init env args = Inr sm \<and> i < 12 \<and>
      faceCenters env (arg_withTractsOnPoles args) i = (v0, v1, v2) \<longrightarrow>
        coordFromVec env (v0, v1, v2) (Some (Angle 0 radians)) =
          Inr (tract_ctrCoord (tractInfoList sm ! i)) \<and>
        coordsFromVecs env (faceVertices env (arg_withTractsOnPoles args) i)
            (Some (getLongitude (tract_ctrCoord (tractInfoList sm ! i)))) =
          Inr (tract_vertexCoordList (tractInfoList sm ! i)) \<and>
        (\<bar>v0\<bar> < TinyFloat \<and> \<bar>v1\<bar> < TinyFloat \<longrightarrow>
           getLongitude (tract_ctrCoord (tractInfoList sm ! i)) = Angle 0 radians))"
proof -
  have no_pole: "DodecaSkyMap_init env args \<noteq> Inl PoleAmbiguity"
    by (cases "validConfig env args") (simp_all add: init_valid init_invalid)
  have tracts:
    "coordFromVec env (v0, v1, v2) (Some (Angle 0 radians)) =
       Inr (tract_ctrCoord (tractInfoList sm ! i)) \<and>
     coordsFromVecs env (faceVertices env (arg_withTractsOnPoles args) i)
         (Some (getLongitude (tract_ctrCoord (tractInfoList sm ! i)))) =
       Inr (tract_vertexCoordList (tractInfoList sm ! i)) \<and>
     (\<bar>v0\<bar> < TinyFloat \<and> \<bar>v1\<bar> < TinyFloat \<longrightarrow>
        getLongitude (tract_ctrCoord (tractInfoList sm ! i)) = Angle 0 radians)"
    if init: "DodecaSkyMap_init env args = Inr sm" and i: "i < 12"
      and c: "faceCenters env (arg_withTractsOnPoles args) i = (v0, v1, v2)"
    for sm i v0 v1 v2
  proof -
    from init have sm: "sm = builtSkyMap env args" by (simp add: init_Inr_iff)
    have t: "tractInfoList sm ! i = tractFor env (emptySkyMap env args) i"
      by (simp add: sm nth_built i)
    show ?thesis
      by (simp add: t tractFor_def Let_def emptySkyMap_def Dodecahedron_init_def c
          coordFromVec_Some coordsFromVecs_Some coordWithDefault_def)
  qed
  from no_pole tracts show ?thesis by blast
qed

text \<open>
  In the example: with tracts on the poles, the center of tract 0 is at longitude 0 and
  latitude +90 degrees; without, the vertex of tract 0 on the north pole takes the
  longitude of the tract's center.
\<close>

theorem init_no_pole_ambiguity_witness:
  "DodecaSkyMap_init exampleEnv (defaultArgs\<lparr>arg_withTractsOnPoles := True\<rparr>) =
     Inr (builtSkyMap exampleEnv (defaultArgs\<lparr>arg_withTractsOnPoles := True\<rparr>)) \<and>
   tract_ctrCoord
       (tractInfoList (builtSkyMap exampleEnv (defaultArgs\<lparr>arg_withTractsOnPoles := True\<rparr>)) ! 0) =
     makeCoord (Angle 0 radians) (Angle 90 degrees) \<and>
   DodecaSkyMap_init exampleEnv defaultArgs = Inr (builtSkyMap exampleEnv defaultArgs) \<and>
   tract_vertexCoordList (tractInfoList (builtSkyMap exampleEnv defaultArgs) ! 0) ! 3 =
     makeCoord (getLongitude (tract_ctrCoord (tractInfoList (builtSkyMap exampleEnv defaultArgs) ! 0)))
       (Angle 90 degrees)"
proof -
  let ?polar = "defaultArgs\<lparr>arg_withTractsOnPoles := True\<rparr>"
  have tiny0: "\<bar>0::real\<bar> < TinyFloat" by (simp add: TinyFloat_def)
  have c1: "faceCenters exampleEnv (arg_withTractsOnPoles ?polar) 0 = (0, 0, 1)"
    by (simp add: example_center_poles)
  have "DodecaSkyMap_init exampleEnv ?polar = Inr (builtSkyMap exampleEnv ?polar) \<and> (0::nat) < 12 \<and>
        faceCenters exampleEnv (arg_withTractsOnPoles ?polar) 0 = (0, 0, 1)"
    using example_init_poles c1 by simp
  from init_no_pole_ambiguity [THEN conjunct2, rule_format, OF this]
  have "coordFromVec exampleEnv (0, 0, 1) (Some (Angle 0 radians)) =
          Inr (tract_ctrCoord (tractInfoList (builtSkyMap exampleEnv ?polar) ! 0))"
    by (rule conjunct1)
  then have a: "tract_ctrCoord (tractInfoList (builtSkyMap exampleEnv ?polar) ! 0) =
      makeCoord (Angle 0 radians) (Angle 90 degrees)"
    using tiny0 by (simp add: coordFromVec_def)
  let ?ra = "getLongitude (tract_ctrCoord (tractInfoList (builtSkyMap exampleEnv defaultArgs) ! 0))"
  have flag: "arg_withTractsOnPoles defaultArgs = False" by (simp add: defaultArgs_def)
  have "DodecaSkyMap_init exampleEnv defaultArgs = Inr (builtSkyMap exampleEnv defaultArgs) \<and>
        (0::nat) < 12 \<and>
        faceCenters exampleEnv (arg_withTractsOnPoles defaultArgs) 0 =
          (480 / 1000, 372 / 1000, 795 / 1000)"
    using example_init by (simp add: flag example_center milli_def)
  from init_no_pole_ambiguity [THEN conjunct2, rule_format, OF this]
  have "coordsFromVecs exampleEnv (faceVertices exampleEnv (arg_withTractsOnPoles defaultArgs) 0)
          (Some ?ra) =
        Inr (tract_vertexCoordList (tractInfoList (builtSkyMap exampleEnv defaultArgs) ! 0))"
    by (rule conjunct2 [THEN conjunct1])
  then have "tract_vertexCoordList (tractInfoList (builtSkyMap exampleEnv defaultArgs) ! 0) =
      map (\<lambda>v. coordWithDefault exampleEnv v ?ra) (faceVertices exampleEnv False 0)"
    by (simp add: coordsFromVecs_Some flag)
  then have b: "tract_vertexCoordList (tractInfoList (builtSkyMap exampleEnv defaultArgs) ! 0) ! 3 =
      coordWithDefault exampleEnv (0, 0, 1) ?ra"
    by (simp add: example_vertices milli_pole)
  have "coordWithDefault exampleEnv (0, 0, 1) ?ra = makeCoord ?ra (Angle 90 degrees)"
    using tiny0 by (simp add: coordWithDefault_def)
  with a b example_init example_init_poles show ?thesis by simp
qed

text \<open>
  C10. On every sky map that the constructor returns, \<^verbatim>\<open>getVersion\<close> is \<open>(1, 0)\<close> and
  \<^verbatim>\<open>__getstate__\<close> writes version \<open>(1, 0)\<close>; a sky map that \<^verbatim>\<open>__setstate__\<close> returns has
  version \<open>(1, 0)\<close>, whatever version the state carried.
\<close>

theorem version_normalised:
  "(DodecaSkyMap_init env args = Inr sm \<longrightarrow>
      getVersion sm = [1, 0] \<and> st_version (getstate sm) = [1, 0]) \<and>
   (setstate env argDict = Inr sm' \<longrightarrow> getVersion sm' = [1, 0])"
  by (auto simp add: init_Inr_iff setstate_def Let_def getVersion_def getstate_def version_built
      split: if_splits)

text \<open>A state with version \<open>(0, 9)\<close> unpickles to a sky map of version \<open>(1, 0)\<close>.\<close>

theorem version_normalised_witness:
  "DodecaSkyMap_init exampleEnv defaultArgs = Inr (builtSkyMap exampleEnv defaultArgs) \<and>
   setstate exampleEnv olderState = Inr (builtSkyMap exampleEnv defaultArgs) \<and>
   st_version olderState = [0, 9] \<and>
   getVersion (builtSkyMap exampleEnv defaultArgs) = [1, 0] \<and>
   st_version (getstate (builtSkyMap exampleEnv defaultArgs)) = [1, 0]"
proof -
  have v: "st_version olderState = [0, 9]" by (simp add: olderState_def)
  from version_normalised [of exampleEnv defaultArgs "builtSkyMap exampleEnv defaultArgs"
      olderState "builtSkyMap exampleEnv defaultArgs"]
  have "getVersion (builtSkyMap exampleEnv defaultArgs) = [1, 0] \<and>
        st_version (getstate (builtSkyMap exampleEnv defaultArgs)) = [1, 0]"
    using example_init by blast
  with example_init setstate_olderState v show ?thesis by (intro conjI) simp_all
qed

end
